theory Spec2Isabelle
  imports Complex_Main "HOL-Library.AList"
begin

section \<open>Python values and exceptions\<close>

text \<open>
  Every value that \<^verbatim>\<open>news_swarm.py\<close> passes around (prompts, chat messages, tool
  arguments, plans, results) is \<^verbatim>\<open>None\<close>, a bool, a number, a string, a list or a
  dict with string keys: the values of \<^verbatim>\<open>json.loads\<close>. A dict is an association list
  in insertion order, each key once. A float is a rational or one of the three special
  values.
\<close>

datatype pyfloat = Finite rat | PosInf | NegInf | NaN

datatype json =
    JNull
  | JBool bool
  | JInt int
  | JFloat pyfloat
  | JStr string
  | JArr "json list"
  | JObj "(string \<times> json) list"

text \<open>
  An exception is its class name and its \<^verbatim>\<open>str(e)\<close>. Only instances of
  \<^verbatim>\<open>Exception\<close> are modelled, the ones an \<^verbatim>\<open>except Exception\<close> clause catches.
  A computation that may raise returns \<open>exn + 'a\<close>, with \<open>Inl\<close> for the raise.
  The texts of the exceptions that the interpreter raises itself follow CPython 3; they
  differ in detail between its versions, and no property below depends on them.
\<close>

datatype exn = Exn (exn_class: string) (exn_str: string)

fun type_name :: "json \<Rightarrow> string" where
  "type_name JNull = ''NoneType''"
| "type_name (JBool b) = ''bool''"
| "type_name (JInt i) = ''int''"
| "type_name (JFloat f) = ''float''"
| "type_name (JStr s) = ''str''"
| "type_name (JArr xs) = ''list''"
| "type_name (JObj kv) = ''dict''"

definition IndexError :: exn where
  "IndexError = Exn ''IndexError'' ''list index out of range''"

text \<open>A name between single quotes, as the interpreter's messages show it.\<close>

definition quoted :: "string \<Rightarrow> string" where
  "quoted s = [CHR 0x27] @ s @ [CHR 0x27]"

definition AttributeError :: "string \<Rightarrow> string \<Rightarrow> exn" where
  "AttributeError ty attr =
     Exn ''AttributeError'' (quoted ty @ '' object has no attribute '' @ quoted attr)"

definition TypeError :: "string \<Rightarrow> exn" where
  "TypeError msg = Exn ''TypeError'' msg"

text \<open>Truth value of a Python object, as \<^verbatim>\<open>if x:\<close> tests it.\<close>

fun truthy :: "json \<Rightarrow> bool" where
  "truthy JNull = False"
| "truthy (JBool b) = b"
| "truthy (JInt i) = (i \<noteq> 0)"
| "truthy (JFloat f) = (f \<noteq> Finite 0)"
| "truthy (JStr s) = (s \<noteq> [])"
| "truthy (JArr xs) = (xs \<noteq> [])"
| "truthy (JObj kv) = (kv \<noteq> [])"

text \<open>\<^verbatim>\<open>d.get(key)\<close> on a dict: the value, or \<^verbatim>\<open>None\<close>.\<close>

definition dict_get :: "(string \<times> json) list \<Rightarrow> string \<Rightarrow> json" where
  "dict_get kv key = (case map_of kv key of None \<Rightarrow> JNull | Some v \<Rightarrow> v)"

text \<open>\<^verbatim>\<open>xs[0]\<close> on a list: the first element, or IndexError.\<close>

definition first_item :: "'a list \<Rightarrow> exn + 'a" where
  "first_item xs = (case xs of [] \<Rightarrow> Inl IndexError | x # _ \<Rightarrow> Inr x)"

text \<open>\<^verbatim>\<open>', '.join(keys)\<close>.\<close>

fun join :: "string \<Rightarrow> string list \<Rightarrow> string" where
  "join sep [] = []"
| "join sep [x] = x"
| "join sep (x # y # ys) = x @ sep @ join sep (y # ys)"

definition newline :: string where
  "newline = [CHR 0x0A]"


section \<open>The model endpoint and the other collaborators\<close>

text \<open>
  The objects the OpenAI client returns. Only the attributes the program reads are kept:
  \<^verbatim>\<open>response.choices[0].finish_reason\<close>, \<^verbatim>\<open>.message.content\<close> and
  \<^verbatim>\<open>.message.function_call\<close> with its \<^verbatim>\<open>name\<close> and \<^verbatim>\<open>arguments\<close>.
\<close>

record function_call =
  fc_name :: string
  fc_arguments :: string

record chat_message =
  content :: "string option"
  function_call :: "function_call option"

record choice =
  finish_reason :: string
  message :: chat_message

record response =
  choices :: "choice list"

text \<open>
  The keyword arguments of \<^verbatim>\<open>client.chat.completions.create\<close>; \<open>functions_arg\<close>
  is the argument \<^verbatim>\<open>functions\<close>. The temperature is the same constant 0.7 at every
  call and is left out.
\<close>

datatype 'a kwarg = NotGiven | Given 'a

record request =
  model :: string
  messages :: "json list"
  functions_arg :: "json list option kwarg"
  response_format :: "json kwarg"

text \<open>
  The world outside the program is a state \<open>'w\<close> that every network call reads and
  changes, so that the same request may be answered differently each time. The
  environment collects what the program does not define itself:
  \<^item> \<open>create\<close>: \<^verbatim>\<open>client.chat.completions.create\<close>, which answers or raises;
  \<^item> \<open>json_loads\<close>, \<open>json_dumps\<close>: \<^verbatim>\<open>json.loads\<close> (which may raise) and
    \<^verbatim>\<open>json.dumps(_, indent=2)\<close>;
  \<^item> \<open>py_repr\<close>: \<^verbatim>\<open>str\<close> of a value that is not a string;
  \<^item> \<open>print\<close>: \<^verbatim>\<open>print(text)\<close>, which raises UnicodeEncodeError when the encoding of
    standard output cannot encode the text (a lone surrogate, for UTF-8);
  \<^item> \<open>google_search\<close>: the body of the \<^verbatim>\<open>try\<close> of \<^verbatim>\<open>search_news\<close>, its print of
    the query, the Custom Search request and the formatting of its items;
  \<^item> \<open>fetch_text\<close>: the print of the URL, \<^verbatim>\<open>requests.get\<close> and BeautifulSoup's
    \<^verbatim>\<open>get_text\<close> in the \<^verbatim>\<open>try\<close> of \<^verbatim>\<open>scrape_news_article\<close>.
  What \<open>print\<close> writes is not kept, only whether it raises. The prints of a constant
  text, and of the ASCII text that \<^verbatim>\<open>json.dumps\<close> gives, encode in every encoding of
  standard output; they cannot raise in this way and are left out. The three prints
  that are modelled are those of the tool's name in the loop of \<^verbatim>\<open>SwarmAgent.run\<close> and
  of the error message in the \<^verbatim>\<open>except\<close> handlers of the two \<^verbatim>\<open>run\<close> methods.
\<close>

record 'w env =
  create :: "'w \<Rightarrow> request \<Rightarrow> (exn + response) \<times> 'w"
  json_loads :: "string \<Rightarrow> exn + json"
  json_dumps :: "json \<Rightarrow> string"
  py_repr :: "json \<Rightarrow> string"
  print :: "string \<Rightarrow> exn + unit"
  google_search :: "'w \<Rightarrow> json \<Rightarrow> (exn + string) \<times> 'w"
  fetch_text :: "'w \<Rightarrow> json \<Rightarrow> (exn + string) \<times> 'w"

definition py_str :: "'w env \<Rightarrow> json \<Rightarrow> string" where
  "py_str env v = (case v of JStr s \<Rightarrow> s | _ \<Rightarrow> py_repr env v)"

text \<open>\<^verbatim>\<open>json.loads(x)\<close> where \<^verbatim>\<open>x\<close> may be \<^verbatim>\<open>None\<close>.\<close>

definition loads_content :: "'w env \<Rightarrow> string option \<Rightarrow> exn + json" where
  "loads_content env c =
     (case c of
        None \<Rightarrow> Inl (TypeError ''the JSON object must be str, bytes or bytearray, not NoneType'')
      | Some s \<Rightarrow> json_loads env s)"

definition content_value :: "string option \<Rightarrow> json" where
  "content_value c = (case c of None \<Rightarrow> JNull | Some s \<Rightarrow> JStr s)"


section \<open>The tools\<close>

text \<open>
  Calling \<^verbatim>\<open>f(**kwargs)\<close> binds the keys of \<^verbatim>\<open>kwargs\<close> to the parameters of
  \<^verbatim>\<open>f\<close>: a key that is no parameter is a TypeError, and so is a parameter without
  default that no key gives. Both tools have one such parameter.
\<close>

definition bind_kwargs ::
  "string \<Rightarrow> string list \<Rightarrow> string list \<Rightarrow> (string \<times> json) list \<Rightarrow> exn + unit" where
  "bind_kwargs f required optional kwargs =
     (case find (\<lambda>k. k \<notin> set (required @ optional)) (map fst kwargs) of
        Some k \<Rightarrow> Inl (TypeError (f @ ''() got an unexpected keyword argument '' @ quoted k))
      | None \<Rightarrow>
          (case filter (\<lambda>p. p \<notin> set (map fst kwargs)) required of
             [] \<Rightarrow> Inr ()
           | p # _ \<Rightarrow>
               Inl (TypeError (f @ ''() missing 1 required positional argument: '' @ quoted p))))"

text \<open>
  \<^verbatim>\<open>search_news(query)\<close>: whatever the search raises becomes the returned string.
\<close>

definition search_news ::
  "'w env \<Rightarrow> (string \<times> json) list \<Rightarrow> 'w \<Rightarrow> (exn + json) \<times> 'w" where
  "search_news env kwargs w =
     (case bind_kwargs ''search_news'' [''query''] [] kwargs of
        Inl e \<Rightarrow> (Inl e, w)
      | Inr _ \<Rightarrow>
          (case google_search env w (dict_get kwargs ''query'') of
             (Inl e, w') \<Rightarrow> (Inr (JStr (''Error performing news search: '' @ exn_str e)), w')
           | (Inr formatted_results, w') \<Rightarrow> (Inr (JStr formatted_results), w')))"

text \<open>\<^verbatim>\<open>d[key] = v\<close>: on a dict it stores, on any other value it raises.\<close>

definition set_item :: "json \<Rightarrow> string \<Rightarrow> json \<Rightarrow> exn + json" where
  "set_item d key v =
     (case d of
        JObj kv \<Rightarrow> Inr (JObj (AList.update key v kv))
      | JArr xs \<Rightarrow> Inl (TypeError ''list indices must be integers or slices, not str'')
      | _ \<Rightarrow> Inl (TypeError (quoted (type_name d) @ '' object does not support item assignment'')))"

definition article_schema_prompt :: string where
  \<open>article_schema_prompt =
     ''You are a news analysis specialist. Extract and analyze article content according to this schema:'' @ newline @
     ''            {'' @ newline @
     ''                "title": string,'' @ newline @
     ''                "summary": string,'' @ newline @
     ''                "quotes": [{"text": string, "speaker": string, "context": string}],'' @ newline @
     ''                "entities": [{"name": string, "type": string, "sentiment": number}],'' @ newline @
     ''                "sentiment_score": number (-1 to 1),'' @ newline @
     ''                "topics": [string],'' @ newline @
     ''                "category": string'' @ newline @
     ''            }''\<close>

text \<open>
  \<^verbatim>\<open>extract_article_content(text, url)\<close>: one call of the model endpoint; every
  exception becomes a dict with an \<^verbatim>\<open>error\<close> key.
\<close>

definition extract_article_content :: "'w env \<Rightarrow> string \<Rightarrow> json \<Rightarrow> 'w \<Rightarrow> json \<times> 'w" where
  "extract_article_content env text url w =
     (let messages =
            [JObj [(''role'', JStr ''system''), (''content'', JStr article_schema_prompt)],
             JObj [(''role'', JStr ''user''), (''content'', JStr text)]];
          failed = (\<lambda>e. JObj [(''error'', JStr (''Failed to analyze article: '' @ exn_str e)),
                                 (''url'', if truthy url then url else JNull)])
      in case create env w \<lparr>model = ''gpt-35-turbo'', messages = messages,
                functions_arg = NotGiven,
                response_format = Given (JObj [(''type'', JStr ''json_object'')])\<rparr> of
           (Inl e, w') \<Rightarrow> (failed e, w')
         | (Inr response, w') \<Rightarrow>
             (case first_item (choices response) of
                Inl e \<Rightarrow> (failed e, w')
              | Inr c \<Rightarrow>
                  (case loads_content env (content (message c)) of
                     Inl e \<Rightarrow> (failed e, w')
                   | Inr article_json \<Rightarrow>
                       if truthy url then
                         (case set_item article_json ''url'' url of
                            Inl e \<Rightarrow> (failed e, w')
                          | Inr article_json' \<Rightarrow> (article_json', w'))
                       else (article_json, w'))))"

text \<open>
  \<^verbatim>\<open>scrape_news_article(url, analyze=True)\<close>: the page's text, or its analysis; whatever
  the download raises becomes the returned string.
\<close>

definition scrape_news_article ::
  "'w env \<Rightarrow> (string \<times> json) list \<Rightarrow> 'w \<Rightarrow> (exn + json) \<times> 'w" where
  "scrape_news_article env kwargs w =
     (case bind_kwargs ''scrape_news_article'' [''url''] [''analyze''] kwargs of
        Inl e \<Rightarrow> (Inl e, w)
      | Inr _ \<Rightarrow>
          (let url = dict_get kwargs ''url'';
               analyze = (case map_of kwargs ''analyze'' of None \<Rightarrow> JBool True | Some a \<Rightarrow> a)
           in case fetch_text env w url of
                (Inl e, w') \<Rightarrow> (Inr (JStr (''Error scraping article: '' @ exn_str e)), w')
              | (Inr text, w') \<Rightarrow>
                  if truthy analyze then
                    (case extract_article_content env text url w' of
                       (result, w'') \<Rightarrow> (Inr result, w''))
                  else (Inr (JStr text), w')))"


section \<open>SwarmAgent\<close>

record swarm_agent =
  name :: string
  description :: string
  tools :: "json list"

text \<open>\<^verbatim>\<open>self.tool_implementations\<close>, the same two entries for every agent.\<close>

definition tool_implementations ::
  "'w env \<Rightarrow> (string \<times> ((string \<times> json) list \<Rightarrow> 'w \<Rightarrow> (exn + json) \<times> 'w)) list" where
  "tool_implementations env =
     [(''search_news'', search_news env), (''scrape_news_article'', scrape_news_article env)]"

definition system_message :: "swarm_agent \<Rightarrow> string" where
  "system_message ag =
     ''You are '' @ name ag @ ''. '' @ description ag @ newline @
     ''        You have access to tools for searching news and analyzing articles.'' @ newline @
     ''        Use these tools to provide accurate and comprehensive news analysis.''"

text \<open>\<^verbatim>\<open>functions=self.tools if self.tools else None\<close>.\<close>

definition agent_request :: "swarm_agent \<Rightarrow> json list \<Rightarrow> request" where
  "agent_request ag msgs =
     \<lparr>model = ''gpt-35-turbo'', messages = msgs,
      functions_arg = Given (if tools ag \<noteq> [] then Some (tools ag) else None),
      response_format = NotGiven\<rparr>"

text \<open>
  The call \<^verbatim>\<open>self.tool_implementations.get(function_name, lambda **kwargs: ...)(**function_args)\<close>:
  a name that is not registered gets the fallback, which returns a message and does not
  raise. \<^verbatim>\<open>**function_args\<close> needs a dict.
\<close>

definition call_tool :: "'w env \<Rightarrow> string \<Rightarrow> json \<Rightarrow> 'w \<Rightarrow> (exn + json) \<times> 'w" where
  "call_tool env function_name function_args w =
     (let f = (case map_of (tool_implementations env) function_name of
                 Some impl \<Rightarrow> impl
               | None \<Rightarrow> (\<lambda>kwargs w. (Inr (JStr (''Error: Function '' @ function_name @ '' not found'')), w)))
      in case function_args of
           JObj kwargs \<Rightarrow> f kwargs w
         | _ \<Rightarrow> (Inl (TypeError (''argument after ** must be a mapping, not ''
                               @ type_name function_args)), w))"

text \<open>
  One round of the \<^verbatim>\<open>while\<close> loop of \<^verbatim>\<open>SwarmAgent.run\<close>, entered when the reply's
  \<^verbatim>\<open>finish_reason\<close> is \<^verbatim>\<open>function_call\<close>: parse the arguments, print the tool's name,
  call the tool, extend the conversation by the request and its result, and ask the
  model again. It gives the new conversation and the new reply, or the exception that
  left the loop.
\<close>

definition tool_round ::
  "'w env \<Rightarrow> swarm_agent \<Rightarrow> json list \<Rightarrow> choice \<Rightarrow> 'w \<Rightarrow> (exn + json list \<times> response) \<times> 'w" where
  "tool_round env ag msgs c w =
     (case function_call (message c) of
        None \<Rightarrow> (Inl (AttributeError ''NoneType'' ''name''), w)
      | Some fc \<Rightarrow>
          (let function_name = fc_name fc in
           case json_loads env (fc_arguments fc) of
             Inl e \<Rightarrow> (Inl e, w)
           | Inr function_args \<Rightarrow>
               (case print env (''Function: '' @ function_name) of
                  Inl e \<Rightarrow> (Inl e, w)
                | Inr _ \<Rightarrow>
               (case call_tool env function_name function_args w of
                  (Inl e, w') \<Rightarrow> (Inl e, w')
                | (Inr function_response, w') \<Rightarrow>
                    (let msgs' = msgs @
                           [JObj [(''role'', JStr ''assistant''),
                                  (''content'', JNull),
                                  (''function_call'',
                                     JObj [(''name'', JStr function_name),
                                           (''arguments'', JStr (fc_arguments fc))])],
                            JObj [(''role'', JStr ''function''),
                                  (''name'', JStr function_name),
                                  (''content'', JStr (py_str env function_response))]]
                     in case create env w' (agent_request ag msgs') of
                          (Inl e, w'') \<Rightarrow> (Inl e, w'')
                        | (Inr response', w'') \<Rightarrow> (Inr (msgs', response'), w''))))))"

text \<open>
  The loop itself. It has no bound on the number of rounds, so it is a partial function:
  \<open>None\<close> is a run that never returns. \<open>Some (Inl e, w)\<close> is an exception that leaves
  the loop, \<open>Some (Inr d, w)\<close> the dict of the \<^verbatim>\<open>return\<close> after the loop.
\<close>

partial_function (option) tool_loop ::
  "'w env \<Rightarrow> swarm_agent \<Rightarrow> json list \<Rightarrow> response \<Rightarrow> 'w \<Rightarrow> ((exn + json) \<times> 'w) option" where
  "tool_loop env ag msgs response w =
     (case first_item (choices response) of
        Inl e \<Rightarrow> Some (Inl e, w)
      | Inr c \<Rightarrow>
          if finish_reason c = ''function_call'' then
            (case tool_round env ag msgs c w of
               (Inl e, w') \<Rightarrow> Some (Inl e, w')
             | (Inr (msgs', response'), w') \<Rightarrow> tool_loop env ag msgs' response' w')
          else
            Some (Inr (JObj [(''data'', JObj [(''output'', content_value (content (message c)))])]), w))"

declare tool_loop.simps [code]

text \<open>
  The body of the \<^verbatim>\<open>try\<close> of \<^verbatim>\<open>SwarmAgent.run\<close>: the conversation starts as the
  system message and the prompt.
\<close>

definition initial_messages :: "swarm_agent \<Rightarrow> json \<Rightarrow> json list" where
  "initial_messages ag prompt =
     [JObj [(''role'', JStr ''system''), (''content'', JStr (system_message ag))],
      JObj [(''role'', JStr ''user''), (''content'', prompt)]]"

definition swarm_body ::
  "'w env \<Rightarrow> swarm_agent \<Rightarrow> json \<Rightarrow> 'w \<Rightarrow> ((exn + json) \<times> 'w) option" where
  "swarm_body env ag prompt w =
     (case create env w (agent_request ag (initial_messages ag prompt)) of
        (Inl e, w') \<Rightarrow> Some (Inl e, w')
      | (Inr response, w') \<Rightarrow> tool_loop env ag (initial_messages ag prompt) response w')"

text \<open>
  The \<^verbatim>\<open>except Exception as e\<close> handler of both \<^verbatim>\<open>run\<close> methods: it builds
  \<^verbatim>\<open>error_msg\<close> from the prefix and \<^verbatim>\<open>str(e)\<close>, prints it and returns it under
  \<^verbatim>\<open>error\<close>. An exception of that print is raised in the handler, where nothing
  catches it: it reaches the caller of \<^verbatim>\<open>run\<close>.
\<close>

definition except_error :: "'w env \<Rightarrow> string \<Rightarrow> exn + json \<Rightarrow> exn + json" where
  "except_error env prefix r =
     (case r of
        Inl e \<Rightarrow>
          (let error_msg = prefix @ exn_str e
           in case print env error_msg of
                Inl e' \<Rightarrow> Inl e'
              | Inr _ \<Rightarrow> Inr (JObj [(''error'', JStr error_msg)]))
      | Inr v \<Rightarrow> Inr v)"

text \<open>\<^verbatim>\<open>SwarmAgent.run(prompt)\<close>.\<close>

definition swarm_run ::
  "'w env \<Rightarrow> swarm_agent \<Rightarrow> json \<Rightarrow> 'w \<Rightarrow> ((exn + json) \<times> 'w) option" where
  "swarm_run env ag prompt w =
     map_option (\<lambda>(r, w'). (except_error env ''Error in agent execution: '' r, w'))
       (swarm_body env ag prompt w)"


section \<open>OrchestratorAgent\<close>

text \<open>
  A sub-agent is used through its \<^verbatim>\<open>run\<close> method only, so \<^verbatim>\<open>self.sub_agents\<close> maps each
  name to that method: \<open>swarm_run env ag\<close> for a SwarmAgent. The dict is an association
  list in insertion order.
\<close>

type_synonym 'w run_method = "json \<Rightarrow> 'w \<Rightarrow> ((exn + json) \<times> 'w) option"

record 'w orchestrator_agent = swarm_agent +
  sub_agents :: "(string \<times> 'w run_method) list"

text \<open>\<^verbatim>\<open>OrchestratorAgent.__init__(sub_agents)\<close>.\<close>

definition OrchestratorAgent :: "(string \<times> 'w run_method) list \<Rightarrow> 'w orchestrator_agent" where
  "OrchestratorAgent subs =
     \<lparr>name = ''News Orchestrator'',
      description = ''I coordinate between specialized agents to perform comprehensive news analysis'',
      tools =
        [JObj [(''name'', JStr ''search_news''),
               (''description'', JStr ''Search for news articles''),
               (''parameters'',
                  JObj [(''type'', JStr ''object''),
                        (''properties'', JObj [(''query'', JObj [(''type'', JStr ''string'')])]),
                        (''required'', JArr [JStr ''query''])])],
         JObj [(''name'', JStr ''scrape_news_article''),
               (''description'', JStr ''Scrape and analyze news article content''),
               (''parameters'',
                  JObj [(''type'', JStr ''object''),
                        (''properties'',
                           JObj [(''url'', JObj [(''type'', JStr ''string'')]),
                                 (''analyze'', JObj [(''type'', JStr ''boolean'')])]),
                        (''required'', JArr [JStr ''url''])])]],
      sub_agents = subs\<rparr>"

definition plain_request :: "json list \<Rightarrow> request" where
  "plain_request msgs =
     \<lparr>model = ''gpt-35-turbo'', messages = msgs, functions_arg = NotGiven,
      response_format = NotGiven\<rparr>"

definition planning_messages :: "string list \<Rightarrow> json \<Rightarrow> json list" where
  "planning_messages agent_names prompt =
     [JObj [(''role'', JStr ''system''),
            (''content'', JStr (
               ''You are a news analysis orchestrator.'' @ newline @
               ''                Available agents: '' @ join '', '' agent_names @ ''.'' @ newline @
               ''                Create a plan to analyze news content and return as JSON array with:'' @ newline @
               ''                - agent_name: which agent to use'' @ newline @
               ''                - sub_task: specific task for the agent''))],
      JObj [(''role'', JStr ''user''), (''content'', prompt)]]"

text \<open>\<^verbatim>\<open>if not isinstance(tasks, list): tasks = [tasks]\<close>.\<close>

definition as_task_list :: "json \<Rightarrow> json list" where
  "as_task_list tasks = (case tasks of JArr xs \<Rightarrow> xs | _ \<Rightarrow> [tasks])"

text \<open>The planning phase: the model's plan, parsed, as a list of tasks.\<close>

definition plan :: "'w env \<Rightarrow> string list \<Rightarrow> json \<Rightarrow> 'w \<Rightarrow> (exn + json list) \<times> 'w" where
  "plan env agent_names prompt w =
     (case create env w (plain_request (planning_messages agent_names prompt)) of
        (Inl e, w') \<Rightarrow> (Inl e, w')
      | (Inr planning_response, w') \<Rightarrow>
          (case first_item (choices planning_response) of
             Inl e \<Rightarrow> (Inl e, w')
           | Inr c \<Rightarrow>
               (case loads_content env (content (message c)) of
                  Inl e \<Rightarrow> (Inl e, w')
                | Inr tasks \<Rightarrow> (Inr (as_task_list tasks), w'))))"

text \<open>
  \<^verbatim>\<open>agent_name in self.sub_agents\<close> and, when it holds, \<^verbatim>\<open>self.sub_agents[agent_name]\<close>.
  The keys are strings, so only a string can be a key; a list or a dict cannot be hashed
  and the test raises.
\<close>

definition lookup_agent :: "(string \<times> 'a) list \<Rightarrow> json \<Rightarrow> exn + 'a option" where
  "lookup_agent subs agent_name =
     (case agent_name of
        JStr s \<Rightarrow> Inr (map_of subs s)
      | JArr _ \<Rightarrow> Inl (TypeError (''unhashable type: '' @ quoted ''list''))
      | JObj _ \<Rightarrow> Inl (TypeError (''unhashable type: '' @ quoted ''dict''))
      | _ \<Rightarrow> Inr None)"

text \<open>
  The dispatch phase, the \<^verbatim>\<open>for task in tasks\<close> loop: \<open>results\<close> is the list built so
  far. A sub-agent that never returns keeps the loop from returning (\<open>None\<close>).
\<close>

fun dispatch ::
  "(string \<times> 'w run_method) list \<Rightarrow> json list \<Rightarrow> json list \<Rightarrow> 'w
     \<Rightarrow> ((exn + json list) \<times> 'w) option" where
  "dispatch subs [] results w = Some (Inr results, w)"
| "dispatch subs (task # tasks) results w =
     (case task of
        JObj kv \<Rightarrow>
          (let agent_name = dict_get kv ''agent_name'';
               sub_task = dict_get kv ''sub_task''
           in case lookup_agent subs agent_name of
                Inl e \<Rightarrow> Some (Inl e, w)
              | Inr None \<Rightarrow> dispatch subs tasks results w
              | Inr (Some sub_agent_run) \<Rightarrow>
                  (case sub_agent_run sub_task w of
                     None \<Rightarrow> None
                   | Some (Inl e, w') \<Rightarrow> Some (Inl e, w')
                   | Some (Inr result, w') \<Rightarrow>
                       dispatch subs tasks
                         (results @ [JObj [(''agent'', agent_name),
                                           (''task'', sub_task),
                                           (''result'', result)]]) w'))
      | _ \<Rightarrow> Some (Inl (AttributeError (type_name task) ''get''), w))"

text \<open>The synthesis phase and the \<^verbatim>\<open>return\<close> of the report.\<close>

definition synthesis_messages :: "'w env \<Rightarrow> json list \<Rightarrow> json list" where
  "synthesis_messages env results =
     [JObj [(''role'', JStr ''system''),
            (''content'', JStr ''Synthesize the news analysis results into a final report.'')],
      JObj [(''role'', JStr ''user''),
            (''content'', JStr (''Results: '' @ json_dumps env (JArr results)))]]"

definition synthesize :: "'w env \<Rightarrow> json list \<Rightarrow> 'w \<Rightarrow> (exn + json) \<times> 'w" where
  "synthesize env results w =
     (case create env w (plain_request (synthesis_messages env results)) of
        (Inl e, w') \<Rightarrow> (Inl e, w')
      | (Inr synthesis, w') \<Rightarrow>
          (case first_item (choices synthesis) of
             Inl e \<Rightarrow> (Inl e, w')
           | Inr c \<Rightarrow>
               (Inr (JObj [(''data'',
                       JObj [(''output'', content_value (content (message c))),
                             (''analysis_results'', JArr results)])]), w')))"

text \<open>The body of the \<^verbatim>\<open>try\<close> of \<^verbatim>\<open>OrchestratorAgent.run\<close>: plan, dispatch, synthesize.\<close>

definition orchestrator_body ::
  "'w env \<Rightarrow> 'w orchestrator_agent \<Rightarrow> json \<Rightarrow> 'w \<Rightarrow> ((exn + json) \<times> 'w) option" where
  "orchestrator_body env orch prompt w =
     (case plan env (map fst (sub_agents orch)) prompt w of
        (Inl e, w1) \<Rightarrow> Some (Inl e, w1)
      | (Inr tasks, w1) \<Rightarrow>
          (case dispatch (sub_agents orch) tasks [] w1 of
             None \<Rightarrow> None
           | Some (Inl e, w2) \<Rightarrow> Some (Inl e, w2)
           | Some (Inr results, w2) \<Rightarrow> Some (synthesize env results w2)))"

text \<open>\<^verbatim>\<open>OrchestratorAgent.run(prompt)\<close>.\<close>

definition orchestrator_run ::
  "'w env \<Rightarrow> 'w orchestrator_agent \<Rightarrow> json \<Rightarrow> 'w \<Rightarrow> ((exn + json) \<times> 'w) option" where
  "orchestrator_run env orch prompt w =
     map_option (\<lambda>(r, w'). (except_error env ''Orchestration error: '' r, w'))
       (orchestrator_body env orch prompt w)"


section \<open>Notions the properties are stated with\<close>

text \<open>
  A plan step of the expected shape is a JSON object whose \<^verbatim>\<open>agent_name\<close>, when it has
  one, is \<^verbatim>\<open>null\<close>, a boolean, a number or a string. Its agent name resolves when it is
  a string that is a key of the sub-agents.
\<close>

fun hashable :: "json \<Rightarrow> bool" where
  "hashable (JArr xs) = False"
| "hashable (JObj kv) = False"
| "hashable v = True"

definition get_field :: "json \<Rightarrow> string \<Rightarrow> json" where
  "get_field v key = (case v of JObj kv \<Rightarrow> dict_get kv key | _ \<Rightarrow> JNull)"

definition plan_step :: "json \<Rightarrow> bool" where
  "plan_step task = (case task of JObj kv \<Rightarrow> hashable (dict_get kv ''agent_name'') | _ \<Rightarrow> False)"

definition resolves :: "(string \<times> 'a) list \<Rightarrow> json \<Rightarrow> bool" where
  "resolves subs task =
     (case get_field task ''agent_name'' of
        JStr s \<Rightarrow> s \<in> set (map fst subs)
      | _ \<Rightarrow> False)"

text \<open>The SubAgentResult of a plan step and of what its sub-agent returned.\<close>

definition sub_agent_result :: "json \<Rightarrow> json \<Rightarrow> json" where
  "sub_agent_result task result =
     JObj [(''agent'', get_field task ''agent_name''),
           (''task'', get_field task ''sub_task''),
           (''result'', result)]"

text \<open>
  What the specification asks of the dispatch phase. The steps that resolve are the
  steps whose \<^verbatim>\<open>agent_name\<close> is a key of the sub-agents, each with the \<^verbatim>\<open>run\<close> method
  of its sub-agent, in plan order. The phase invokes \<^verbatim>\<open>run(sub_task)\<close> on each of them
  in turn and appends one SubAgentResult per step.
\<close>

definition resolve :: "(string \<times> 'a) list \<Rightarrow> json \<Rightarrow> 'a option" where
  "resolve subs task =
     (case get_field task ''agent_name'' of
        JStr s \<Rightarrow> map_of subs s
      | _ \<Rightarrow> None)"

definition resolved_steps :: "(string \<times> 'a) list \<Rightarrow> json list \<Rightarrow> ('a \<times> json) list" where
  "resolved_steps subs tasks =
     List.map_filter (\<lambda>task. map_option (\<lambda>sub. (sub, task)) (resolve subs task)) tasks"

fun invoke_all ::
  "('w run_method \<times> json) list \<Rightarrow> json list \<Rightarrow> 'w \<Rightarrow> ((exn + json list) \<times> 'w) option" where
  "invoke_all [] results w = Some (Inr results, w)"
| "invoke_all ((sub_agent_run, step) # steps) results w =
     (case sub_agent_run (get_field step ''sub_task'') w of
        None \<Rightarrow> None
      | Some (Inl e, w') \<Rightarrow> Some (Inl e, w')
      | Some (Inr result, w') \<Rightarrow>
          invoke_all steps (results @ [sub_agent_result step result]) w')"

text \<open>
  A model that asks for a tool on every round: from every state of the loop that \<open>I\<close>
  holds of, the reply is a tool-call request, the round raises nothing, and \<open>I\<close> holds
  of the next state.
\<close>

definition always_calls ::
  "'w env \<Rightarrow> swarm_agent \<Rightarrow> (json list \<Rightarrow> response \<Rightarrow> 'w \<Rightarrow> bool) \<Rightarrow> bool" where
  "always_calls env ag I =
     (\<forall>msgs response w. I msgs response w \<longrightarrow>
        (\<exists>c cs msgs' response' w'.
           choices response = c # cs \<and> finish_reason c = ''function_call'' \<and>
           tool_round env ag msgs c w = (Inr (msgs', response'), w') \<and> I msgs' response' w'))"

text \<open>A \<^verbatim>\<open>run\<close> method that returns a value for every task, in every world.\<close>

definition always_returns :: "'w run_method \<Rightarrow> bool" where
  "always_returns sub_agent_run = (\<forall>task w. \<exists>result w'. sub_agent_run task w = Some (Inr result, w'))"


section \<open>Concrete agents and environments\<close>

text \<open>The two agents of the program's \<^verbatim>\<open>__main__\<close>.\<close>

definition news_searcher :: swarm_agent where
  "news_searcher =
     \<lparr>name = ''News Searcher'',
      description = ''Specializes in finding relevant news articles from reliable sources'',
      tools =
        [JObj [(''name'', JStr ''search_news''),
               (''description'', JStr ''Search for news articles''),
               (''parameters'',
                  JObj [(''type'', JStr ''object''),
                        (''properties'', JObj [(''query'', JObj [(''type'', JStr ''string'')])]),
                        (''required'', JArr [JStr ''query''])])]]\<rparr>"

definition content_analyzer :: swarm_agent where
  "content_analyzer =
     \<lparr>name = ''Content Analyzer'',
      description = ''Analyzes news article content for key information and patterns'',
      tools =
        [JObj [(''name'', JStr ''scrape_news_article''),
               (''description'', JStr ''Scrape and analyze news article content''),
               (''parameters'',
                  JObj [(''type'', JStr ''object''),
                        (''properties'',
                           JObj [(''url'', JObj [(''type'', JStr ''string'')]),
                                 (''analyze'', JObj [(''type'', JStr ''boolean'')])]),
                        (''required'', JArr [JStr ''url''])])]]\<rparr>"

text \<open>Replies of the model: a final message, and a request to call a tool.\<close>

definition final_reply :: "string \<Rightarrow> response" where
  "final_reply s =
     \<lparr>choices = [\<lparr>finish_reason = ''stop'',
                  message = \<lparr>content = Some s, function_call = None\<rparr>\<rparr>]\<rparr>"

definition call_reply :: "string \<Rightarrow> string \<Rightarrow> response" where
  "call_reply f args =
     \<lparr>choices = [\<lparr>finish_reason = ''function_call'',
                  message = \<lparr>content = None,
                             function_call = Some \<lparr>fc_name = f, fc_arguments = args\<rparr>\<rparr>\<rparr>]\<rparr>"

text \<open>
  A \<^verbatim>\<open>json.loads\<close> that knows the texts of a table and rejects every other text.
\<close>

definition loads_table :: "(string \<times> json) list \<Rightarrow> string \<Rightarrow> exn + json" where
  "loads_table tbl s =
     (case map_of tbl s of
        Some v \<Rightarrow> Inr v
      | None \<Rightarrow> Inl (Exn ''JSONDecodeError'' ''Expecting value: line 1 column 1 (char 0)''))"

definition one_step_plan :: string where
  \<open>one_step_plan = ''[{"agent_name": "news_searcher", "sub_task": "find X"}]''\<close>

definition object_plan :: string where
  \<open>object_plan = ''{"agent_name": "news_searcher", "sub_task": "find X"}''\<close>

definition unregistered_plan :: string where
  \<open>unregistered_plan = ''[{"agent_name": "searcher", "sub_task": "find X"}]''\<close>

definition three_step_plan :: string where
  \<open>three_step_plan = ''[{"agent_name": "content_analyzer", "sub_task": "analyze"}, {"sub_task": "summarize"}, {"agent_name": "news_searcher", "sub_task": "find X"}]''\<close>

definition known_texts :: "(string \<times> json) list" where
  \<open>known_texts =
     [(''{"query": "ai"}'', JObj [(''query'', JStr ''ai'')]),
      (''{}'', JObj []),
      (one_step_plan,
         JArr [JObj [(''agent_name'', JStr ''news_searcher''), (''sub_task'', JStr ''find X'')]]),
      (object_plan,
         JObj [(''agent_name'', JStr ''news_searcher''), (''sub_task'', JStr ''find X'')]),
      (unregistered_plan,
         JArr [JObj [(''agent_name'', JStr ''searcher''), (''sub_task'', JStr ''find X'')]]),
      (three_step_plan,
         JArr [JObj [(''agent_name'', JStr ''content_analyzer''), (''sub_task'', JStr ''analyze'')],
               JObj [(''sub_task'', JStr ''summarize'')],
               JObj [(''agent_name'', JStr ''news_searcher''), (''sub_task'', JStr ''find X'')]])]\<close>

text \<open>
  An environment whose world is the number of model calls made so far: the \<open>n\<close>-th call
  is answered by \<open>script n\<close>, whatever the request. The search finds nothing, every
  page has the same text, and standard output takes every text.
\<close>

definition scripted_env :: "(nat \<Rightarrow> exn + response) \<Rightarrow> nat env" where
  "scripted_env script =
     \<lparr>create = (\<lambda>w req. (script w, Suc w)),
      json_loads = loads_table known_texts,
      json_dumps = (\<lambda>v. ''[...]''),
      py_repr = (\<lambda>v. ''{...}''),
      print = (\<lambda>text. Inr ()),
      google_search = (\<lambda>w q. (Inr ''[]'', w)),
      fetch_text = (\<lambda>w u. (Inr ''page text'', w))\<rparr>"

definition search_call :: response where
  \<open>search_call = call_reply ''search_news'' ''{"query": "ai"}''\<close>

text \<open>A model that asks for a search on every round.\<close>

definition always_call_env :: "nat env" where
  "always_call_env = scripted_env (\<lambda>n. Inr search_call)"

text \<open>
  A model that answers the first call with a one-step plan and then asks for a search on
  every round.
\<close>

definition plan_then_call_env :: "nat env" where
  "plan_then_call_env =
     scripted_env (\<lambda>n. if n = 0 then Inr (final_reply one_step_plan) else Inr search_call)"

text \<open>
  A model that answers the first call with \<open>plan_text\<close>, every later call but the last of
  \<open>n\<close> calls with a final message, and the last with \<open>last_reply\<close>.
\<close>

definition planning_env :: "string \<Rightarrow> nat \<Rightarrow> exn + response \<Rightarrow> nat env" where
  "planning_env plan_text n last_reply =
     scripted_env (\<lambda>k. if k = 0 then Inr (final_reply plan_text)
        else if Suc k < n then Inr (final_reply ''found'')
        else last_reply)"

text \<open>A model that first asks for a tool that no agent has, then gives its final message.\<close>

definition unknown_tool_env :: "nat env" where
  "unknown_tool_env =
     scripted_env (\<lambda>k. if k = 0 then Inr (call_reply ''translate'' ''{}'')
        else Inr (final_reply ''done''))"

definition report_env :: "string \<Rightarrow> nat \<Rightarrow> nat env" where
  "report_env plan_text n = planning_env plan_text n (Inr (final_reply ''report''))"

text \<open>The same, with the model endpoint down when the synthesis is asked for.\<close>

definition synthesis_down_env :: "nat env" where
  "synthesis_down_env =
     planning_env one_step_plan 3 (Inl (Exn ''APIConnectionError'' ''Connection error.''))"

text \<open>A model whose every reply is the final message.\<close>

definition found_env :: "nat env" where
  "found_env = scripted_env (\<lambda>k. Inr (final_reply ''found''))"

text \<open>A model endpoint that is down: every call raises.\<close>

definition failing_env :: "nat env" where
  "failing_env = scripted_env (\<lambda>n. Inl (Exn ''APIConnectionError'' ''Connection error.''))"

text \<open>
  A standard output in UTF-8. Here a Python string is the bytes of its UTF-8 encoding,
  and the lone surrogate U+D83D, which UTF-8 does not encode, is the three bytes that
  the same scheme would give it. Printing a text that holds it raises, with the
  message of CPython.
\<close>

definition lone_surrogate :: string where
  "lone_surrogate = [CHR 0xED, CHR 0xA0, CHR 0xBD]"

fun surrogate_position :: "string \<Rightarrow> nat option" where
  "surrogate_position (a # b # c # cs) =
     (if [a, b, c] = lone_surrogate then Some 0
      else map_option Suc (surrogate_position (b # c # cs)))"
| "surrogate_position cs = None"

fun decimal :: "nat \<Rightarrow> string" where
  "decimal n =
     (if n < 10 then [''0123456789'' ! n]
      else decimal (n div 10) @ [''0123456789'' ! (n mod 10)])"

definition utf8_print :: "string \<Rightarrow> exn + unit" where
  "utf8_print s =
     (case surrogate_position s of
        None \<Rightarrow> Inr ()
      | Some k \<Rightarrow>
          Inl (Exn ''UnicodeEncodeError''
                 (quoted ''utf-8'' @ '' codec can't encode character ''
                  @ quoted ([CHR 0x5C] @ ''ud83d'') @ '' in position '' @ decimal k
                  @ '': surrogates not allowed'')))"

text \<open>
  A model that asks for a search with the arguments \<^verbatim>\<open>{"\ud83d": 1}\<close>, whose one key is
  that surrogate, in front of such a standard output.
\<close>

definition surrogate_arguments :: string where
  \<open>surrogate_arguments = ''{"'' @ [CHR 0x5C] @ ''ud83d": 1}''\<close>

definition surrogate_env :: "nat env" where
  "surrogate_env =
     (scripted_env (\<lambda>k. Inr (call_reply ''search_news'' surrogate_arguments)))
       \<lparr>json_loads := loads_table [(surrogate_arguments, JObj [(lone_surrogate, JInt 1)])],
        print := utf8_print\<rparr>"

text \<open>The orchestrator of the program's \<^verbatim>\<open>__main__\<close>, its two agents run in \<open>env\<close>.\<close>

definition orchestrator :: "nat env \<Rightarrow> nat orchestrator_agent" where
  "orchestrator env =
     OrchestratorAgent [(''news_searcher'', swarm_run env news_searcher),
                        (''content_analyzer'', swarm_run env content_analyzer)]"

text \<open>
  A plan of five steps: two resolve, one has no agent name, one names an agent that is
  not registered, one has the agent name \<^verbatim>\<open>null\<close>.
\<close>

definition mixed_plan :: "json list" where
  "mixed_plan =
     [JObj [(''agent_name'', JStr ''content_analyzer''), (''sub_task'', JStr ''analyze'')],
      JObj [(''sub_task'', JStr ''summarize'')],
      JObj [(''agent_name'', JStr ''searcher''), (''sub_task'', JStr ''find Y'')],
      JObj [(''agent_name'', JNull), (''sub_task'', JStr ''find Z'')],
      JObj [(''agent_name'', JStr ''news_searcher''), (''sub_task'', JStr ''find X'')]]"


section \<open>The tool-call loop\<close>

lemmas env_defs = scripted_env_def loads_table_def known_texts_def call_reply_def final_reply_def
  search_call_def one_step_plan_def object_plan_def unregistered_plan_def three_step_plan_def

lemmas plan_defs = plan_def planning_env_def report_env_def synthesis_down_env_def first_item_def
  loads_content_def as_task_list_def

lemmas swarm_defs = swarm_run_def swarm_body_def tool_loop.simps except_error_def content_value_def

lemmas orchestrator_defs = orchestrator_run_def orchestrator_body_def orchestrator_def
  OrchestratorAgent_def lookup_agent_def synthesize_def

lemmas run_defs = tool_round_def call_tool_def tool_implementations_def search_news_def
  bind_kwargs_def dict_get_def py_str_def agent_request_def Let_def first_item_def

text \<open>
  The loop is a partial function, so what it returns is reasoned about by the rule of
  partial correctness: an invariant \<open>P\<close> of the loop's states, kept by every round that
  goes on, and a property \<open>Q\<close> of each of the three ways out: no first choice, a round
  that raises, a reply that is not a tool-call request.
\<close>

lemma tool_loop_rule:
  assumes run: "tool_loop env ag msgs response w = Some r"
    and init: "P msgs response w"
    and step: "\<And>msgs response w c msgs' response' w'.
        P msgs response w \<Longrightarrow> first_item (choices response) = Inr c \<Longrightarrow>
        finish_reason c = ''function_call'' \<Longrightarrow>
        tool_round env ag msgs c w = (Inr (msgs', response'), w') \<Longrightarrow> P msgs' response' w'"
    and exit_index: "\<And>msgs response w e.
        P msgs response w \<Longrightarrow> first_item (choices response) = Inl e \<Longrightarrow> Q (Inl e, w)"
    and exit_round: "\<And>msgs response w c e w'.
        P msgs response w \<Longrightarrow> first_item (choices response) = Inr c \<Longrightarrow>
        finish_reason c = ''function_call'' \<Longrightarrow>
        tool_round env ag msgs c w = (Inl e, w') \<Longrightarrow> Q (Inl e, w')"
    and exit_final: "\<And>msgs response w c.
        P msgs response w \<Longrightarrow> first_item (choices response) = Inr c \<Longrightarrow>
        finish_reason c \<noteq> ''function_call'' \<Longrightarrow>
        Q (Inr (JObj [(''data'', JObj [(''output'', content_value (content (message c)))])]), w)"
  shows "Q r"
proof -
  have "env' = env \<longrightarrow> ag' = ag \<longrightarrow> P msgs response w \<longrightarrow> Q r"
    if "tool_loop env' ag' msgs response w = Some r" for env' ag'
    using that
  proof (induction env' ag' msgs response w r rule: tool_loop.raw_induct[rotated 1, consumes 1])
    case (1 loop env' ag' msgs response w r)
    show ?case
    proof (intro impI)
      assume eq: "env' = env" "ag' = ag" and P: "P msgs response w"
      show "Q r"
      proof (cases "first_item (choices response)")
        case (Inl e)
        with "1.hyps" P exit_index show ?thesis by auto
      next
        case (Inr c)
        show ?thesis
        proof (cases "finish_reason c = ''function_call''")
          case False
          with "1.hyps" Inr P exit_final show ?thesis by auto
        next
          case True
          obtain x w' where tr: "tool_round env ag msgs c w = (x, w')" by (cases "tool_round env ag msgs c w")
          show ?thesis
          proof (cases x)
            case (Inl e)
            with "1.hyps" Inr True tr eq exit_round[OF P Inr True] show ?thesis by auto
          next
            case (Inr p)
            obtain msgs' response' where p: "p = (msgs', response')" by (cases p)
            from "1.hyps" Inr True tr eq p \<open>first_item (choices response) = Inr c\<close>
            have call: "loop env ag msgs' response' w' = Some r"
              by simp
            have "P msgs' response' w'"
              using step[OF P \<open>first_item (choices response) = Inr c\<close> True] tr Inr p by simp
            with "1.IH"[OF call] show ?thesis by simp
          qed
        qed
      qed
    qed
  qed
  with run init show ?thesis by blast
qed

text \<open>
  The loop does not return from a state from which every reply is a tool-call request
  and no round raises.
\<close>

lemma tool_loop_diverges:
  assumes step: "\<And>msgs response w. I msgs response w \<Longrightarrow>
      \<exists>c cs msgs' response' w'. choices response = c # cs \<and> finish_reason c = ''function_call'' \<and>
        tool_round env ag msgs c w = (Inr (msgs', response'), w') \<and> I msgs' response' w'"
    and init: "I msgs response w"
  shows "tool_loop env ag msgs response w = None"
proof (rule ccontr)
  assume "tool_loop env ag msgs response w \<noteq> None"
  then obtain r where r: "tool_loop env ag msgs response w = Some r" by auto
  show False
    by (rule tool_loop_rule[OF r, where P = I and Q = "\<lambda>_. False", OF init])
       (use step in \<open>fastforce simp: first_item_def\<close>)+
qed


lemma tool_loop_returns_data:
  fixes env :: "'w env"
  assumes "tool_loop env ag msgs response w = Some (Inr v, w')"
  shows "\<exists>out. v = JObj [(''data'', JObj [(''output'', out)])]"
proof -
  let ?Q = "\<lambda>r::(exn + json) \<times> 'w.
    \<forall>v. fst r = Inr v \<longrightarrow> (\<exists>out. v = JObj [(''data'', JObj [(''output'', out)])])"
  have "?Q (Inr v, w')"
    by (rule tool_loop_rule[OF assms, where P = "\<lambda>_ _ _. True" and Q = ?Q]) simp_all
  then show ?thesis by simp
qed

text \<open>What each \<^verbatim>\<open>run\<close> makes of the outcome of its \<^verbatim>\<open>try\<close> body.\<close>

lemma swarm_run_cases:
  "swarm_run env ag prompt w =
     (case swarm_body env ag prompt w of
        None \<Rightarrow> None
      | Some (Inl e, w') \<Rightarrow>
          (case print env (''Error in agent execution: '' @ exn_str e) of
             Inl e' \<Rightarrow> Some (Inl e', w')
           | Inr _ \<Rightarrow>
               Some (Inr (JObj [(''error'', JStr (''Error in agent execution: '' @ exn_str e))]), w'))
      | Some (Inr v, w') \<Rightarrow> Some (Inr v, w'))"
  by (simp add: swarm_run_def except_error_def split: option.splits sum.splits prod.splits)

lemma orchestrator_run_cases:
  "orchestrator_run env orch prompt w =
     (case orchestrator_body env orch prompt w of
        None \<Rightarrow> None
      | Some (Inl e, w') \<Rightarrow>
          (case print env (''Orchestration error: '' @ exn_str e) of
             Inl e' \<Rightarrow> Some (Inl e', w')
           | Inr _ \<Rightarrow>
               Some (Inr (JObj [(''error'', JStr (''Orchestration error: '' @ exn_str e))]), w'))
      | Some (Inr v, w') \<Rightarrow> Some (Inr v, w'))"
  by (simp add: orchestrator_run_def except_error_def split: option.splits sum.splits prod.splits)

text \<open>
  An exception of the handler's own print is not caught: it reaches the caller. So it
  is when the model asks for a search with a keyword that standard output cannot
  print: the call raises a TypeError that names the keyword, and the handler's print
  of that message raises.
\<close>

lemma handler_print_reaches_caller:
  assumes "swarm_body env ag prompt w = Some (Inl e, w')"
    and "print env (''Error in agent execution: '' @ exn_str e) = Inl e'"
  shows "swarm_run env ag prompt w = Some (Inl e', w')"
  using assms by (simp add: swarm_run_cases)

lemma surrogate_keyword_run:
  "swarm_run surrogate_env news_searcher (JStr ''find X'') 0 =
     Some (Inl (Exn ''UnicodeEncodeError''
             (quoted ''utf-8'' @ '' codec can't encode character ''
              @ quoted ([CHR 0x5C] @ ''ud83d'') @ '' in position 76: surrogates not allowed'')), 1)"
  by code_simp

lemma swarm_body_returns_data:
  assumes "swarm_body env ag prompt w = Some (Inr v, w')"
  shows "\<exists>out. v = JObj [(''data'', JObj [(''output'', out)])]"
  using assms tool_loop_returns_data
  by (fastforce simp: swarm_body_def Let_def split: prod.splits sum.splits)

lemma orchestrator_body_returns_data:
  assumes "orchestrator_body env orch prompt w = Some (Inr v, w')"
  shows "\<exists>out results. v = JObj [(''data'', JObj [(''output'', out), (''analysis_results'', JArr results)])]"
  using assms
  by (auto simp: orchestrator_body_def synthesize_def split: prod.splits sum.splits option.splits)


section \<open>Both run methods catch the exceptions of their body\<close>

text \<open>
  Claim C1, as amended. Whatever the model endpoint, the parser and the tools raise, no
  exception of the \<^verbatim>\<open>try\<close> body of \<^verbatim>\<open>SwarmAgent.run\<close> or of \<^verbatim>\<open>OrchestratorAgent.run\<close>
  reaches the caller: when the body raises and the handler's print of the error message
  succeeds, the run returns the dict with the \<^verbatim>\<open>error\<close> field; the only exception that
  a run can raise is one of that print; and a run that returns gives a dict,
  \<^verbatim>\<open>{"error": ...}\<close> or \<^verbatim>\<open>{"data": ...}\<close>. That every run returns is not part of the
  statement: it does not hold, as the counterexample below shows.
\<close>

theorem run_catches_body_exceptions:
  "(\<forall>e w'. swarm_body env ag prompt w = Some (Inl e, w') \<and>
      print env (''Error in agent execution: '' @ exn_str e) = Inr () \<longrightarrow>
      swarm_run env ag prompt w =
        Some (Inr (JObj [(''error'', JStr (''Error in agent execution: '' @ exn_str e))]), w')) \<and>
   (\<forall>e w'. orchestrator_body env orch prompt w = Some (Inl e, w') \<and>
      print env (''Orchestration error: '' @ exn_str e) = Inr () \<longrightarrow>
      orchestrator_run env orch prompt w =
        Some (Inr (JObj [(''error'', JStr (''Orchestration error: '' @ exn_str e))]), w')) \<and>
   (\<forall>e' w'. swarm_run env ag prompt w = Some (Inl e', w') \<longrightarrow>
      (\<exists>e. swarm_body env ag prompt w = Some (Inl e, w') \<and>
           print env (''Error in agent execution: '' @ exn_str e) = Inl e')) \<and>
   (\<forall>e' w'. orchestrator_run env orch prompt w = Some (Inl e', w') \<longrightarrow>
      (\<exists>e. orchestrator_body env orch prompt w = Some (Inl e, w') \<and>
           print env (''Orchestration error: '' @ exn_str e) = Inl e')) \<and>
   (\<forall>v w'. swarm_run env ag prompt w = Some (Inr v, w') \<longrightarrow>
      (\<exists>m. v = JObj [(''error'', JStr m)]) \<or>
      (\<exists>out. v = JObj [(''data'', JObj [(''output'', out)])])) \<and>
   (\<forall>v w'. orchestrator_run env orch prompt w = Some (Inr v, w') \<longrightarrow>
      (\<exists>m. v = JObj [(''error'', JStr m)]) \<or>
      (\<exists>out results.
          v = JObj [(''data'', JObj [(''output'', out), (''analysis_results'', JArr results)])]))"
proof (intro conjI allI impI)
  fix e w'
  assume "swarm_body env ag prompt w = Some (Inl e, w') \<and>
      print env (''Error in agent execution: '' @ exn_str e) = Inr ()"
  then show "swarm_run env ag prompt w =
      Some (Inr (JObj [(''error'', JStr (''Error in agent execution: '' @ exn_str e))]), w')"
    by (simp add: swarm_run_cases)
next
  fix e w'
  assume "orchestrator_body env orch prompt w = Some (Inl e, w') \<and>
      print env (''Orchestration error: '' @ exn_str e) = Inr ()"
  then show "orchestrator_run env orch prompt w =
      Some (Inr (JObj [(''error'', JStr (''Orchestration error: '' @ exn_str e))]), w')"
    by (simp add: orchestrator_run_cases)
next
  fix e' w'
  assume "swarm_run env ag prompt w = Some (Inl e', w')"
  then show "\<exists>e. swarm_body env ag prompt w = Some (Inl e, w') \<and>
      print env (''Error in agent execution: '' @ exn_str e) = Inl e'"
    by (auto simp: swarm_run_cases split: option.splits sum.splits prod.splits)
next
  fix e' w'
  assume "orchestrator_run env orch prompt w = Some (Inl e', w')"
  then show "\<exists>e. orchestrator_body env orch prompt w = Some (Inl e, w') \<and>
      print env (''Orchestration error: '' @ exn_str e) = Inl e'"
    by (auto simp: orchestrator_run_cases split: option.splits sum.splits prod.splits)
next
  fix v w'
  assume "swarm_run env ag prompt w = Some (Inr v, w')"
  then show "(\<exists>m. v = JObj [(''error'', JStr m)]) \<or>
      (\<exists>out. v = JObj [(''data'', JObj [(''output'', out)])])"
    using swarm_body_returns_data[of env ag prompt w]
    by (auto simp: swarm_run_cases split: option.splits sum.splits prod.splits)
next
  fix v w'
  assume "orchestrator_run env orch prompt w = Some (Inr v, w')"
  then show "(\<exists>m. v = JObj [(''error'', JStr m)]) \<or>
      (\<exists>out results.
          v = JObj [(''data'', JObj [(''output'', out), (''analysis_results'', JArr results)])])"
    using orchestrator_body_returns_data[of env orch prompt w]
    by (auto simp: orchestrator_run_cases split: option.splits sum.splits prod.splits)
qed

text \<open>
  Witness for C1: with the model endpoint down and a standard output that takes every
  text, both runs return the error dict.
\<close>

theorem run_catches_body_exceptions_witness:
  "swarm_run failing_env news_searcher (JStr ''Analyze recent news'') 0 =
     Some (Inr (JObj [(''error'', JStr ''Error in agent execution: Connection error.'')]), 1) \<and>
   orchestrator_run failing_env (orchestrator failing_env) (JStr ''Analyze recent news'') 0 =
     Some (Inr (JObj [(''error'', JStr ''Orchestration error: Connection error.'')]), 1)"
proof -
  have b1: "swarm_body failing_env news_searcher (JStr ''Analyze recent news'') 0 =
     Some (Inl (Exn ''APIConnectionError'' ''Connection error.''), 1)"
    by (simp add: swarm_body_def failing_env_def scripted_env_def)
  have b2: "orchestrator_body failing_env (orchestrator failing_env)
       (JStr ''Analyze recent news'') 0 =
     Some (Inl (Exn ''APIConnectionError'' ''Connection error.''), 1)"
    by (simp add: orchestrator_body_def plan_def failing_env_def scripted_env_def)
  have p: "print failing_env s = Inr ()" for s
    by (simp add: failing_env_def scripted_env_def)
  from run_catches_body_exceptions[of failing_env news_searcher "JStr ''Analyze recent news''" 0
      "orchestrator failing_env"] b1 b2 p
  show ?thesis by simp
qed

text \<open>
  After its planning call, the model of \<open>plan_then_call_env\<close> asks for a search on
  every round, so no agent run that starts then returns.
\<close>

lemma plan_then_call_diverges:
  "swarm_run plan_then_call_env ag prompt (Suc n) = None"
proof -
  have "tool_loop plan_then_call_env ag (initial_messages ag prompt) search_call (Suc (Suc n)) =
      None"
    by (rule tool_loop_diverges[where I = "\<lambda>msgs response w. response = search_call \<and> 0 < w"])
       (simp_all add: plan_then_call_env_def env_defs run_defs)
  then show ?thesis
    by (simp add: swarm_run_def swarm_body_def plan_then_call_env_def scripted_env_def)
qed

text \<open>
  Counterexample to C1 as stated: a model that asks for a tool on every round raises
  nothing, and the run of the agent never returns; the orchestrator that dispatches to
  such an agent never returns either.
\<close>

theorem run_returns_counterexample:
  "swarm_run always_call_env content_analyzer (JStr ''Analyze recent news'') 0 = None \<and>
   orchestrator_run plan_then_call_env
       (orchestrator plan_then_call_env)
       (JStr ''Analyze recent news'') 0 = None"
proof -
  have "tool_loop always_call_env content_analyzer
      (initial_messages content_analyzer (JStr ''Analyze recent news'')) search_call 1 = None"
    by (rule tool_loop_diverges[where I = "\<lambda>msgs response w. response = search_call"])
       (simp_all add: always_call_env_def env_defs run_defs)
  then have 1: "swarm_run always_call_env content_analyzer (JStr ''Analyze recent news'') 0 = None"
    by (simp add: swarm_run_def swarm_body_def always_call_env_def scripted_env_def)
  have p: "plan plan_then_call_env [''news_searcher'', ''content_analyzer'']
             (JStr ''Analyze recent news'') 0 =
           (Inr [JObj [(''agent_name'', JStr ''news_searcher''), (''sub_task'', JStr ''find X'')]], 1)"
    by (simp add: plan_def plan_then_call_env_def env_defs first_item_def loads_content_def
        as_task_list_def)
  have 2: "orchestrator_run plan_then_call_env
       (orchestrator plan_then_call_env)
       (JStr ''Analyze recent news'') 0 = None"
    using plan_then_call_diverges[of news_searcher "JStr ''find X''" 0]
    by (simp add: orchestrator_run_def orchestrator_body_def orchestrator_def OrchestratorAgent_def
        p lookup_agent_def dict_get_def)
  from 1 2 show ?thesis by simp
qed


section \<open>The loop has no round bound\<close>

text \<open>
  Claim C2, as amended. \<^verbatim>\<open>SwarmAgent.run\<close> counts no rounds: when the first reply and
  every later reply is a tool-call request and no round raises, the run never returns.
\<close>

theorem no_round_bound:
  assumes "create env w (agent_request ag (initial_messages ag prompt)) = (Inr response, w1)"
    and "I (initial_messages ag prompt) response w1"
    and "always_calls env ag I"
  shows "swarm_run env ag prompt w = None"
proof -
  have "tool_loop env ag (initial_messages ag prompt) response w1 = None"
    by (rule tool_loop_diverges[where I = I]) (use assms in \<open>auto simp: always_calls_def\<close>)
  with assms(1) show ?thesis by (simp add: swarm_run_def swarm_body_def)
qed

text \<open>
  Witness for C2: the model that asks for a search on every round.
\<close>

theorem no_round_bound_witness:
  "always_calls always_call_env news_searcher (\<lambda>msgs response w. response = search_call) \<and>
   swarm_run always_call_env news_searcher (JStr ''find X'') 0 = None"
proof -
  have c: "create always_call_env 0 (agent_request news_searcher
      (initial_messages news_searcher (JStr ''find X''))) = (Inr search_call, 1)"
    by (simp add: always_call_env_def env_defs)
  have i: "(\<lambda>msgs response w. response = search_call)
      (initial_messages news_searcher (JStr ''find X'')) search_call (1::nat)"
    by simp
  have a: "always_calls always_call_env news_searcher (\<lambda>msgs response w. response = search_call)"
    unfolding always_calls_def always_call_env_def
    by (simp add: env_defs run_defs)
  from no_round_bound[OF c i a] a show ?thesis by simp
qed

text \<open>
  Counterexample to C2 as stated: with that model the run does not end with an error
  after some number of rounds, it does not end.
\<close>

theorem round_limit_counterexample:
  "swarm_run always_call_env news_searcher (JStr ''latest AI news'') 0 = None"
proof -
  have "tool_loop always_call_env news_searcher
      (initial_messages news_searcher (JStr ''latest AI news'')) search_call 1 = None"
    by (rule tool_loop_diverges[where I = "\<lambda>msgs response w. response = search_call"])
       (simp_all add: always_call_env_def env_defs run_defs)
  then show ?thesis
    by (simp add: swarm_run_def swarm_body_def always_call_env_def scripted_env_def)
qed

section \<open>The orchestrator's phases\<close>

lemma resolves_iff_resolve: "resolves subs task \<longleftrightarrow> resolve subs task \<noteq> None"
  by (cases "get_field task ''agent_name''")
     (simp_all add: resolves_def resolve_def map_of_eq_None_iff)

text \<open>
  On a plan of the expected shape the loop of the dispatch phase does what the
  specification asks: it runs the steps that resolve, one after the other.
\<close>

lemma dispatch_resolved:
  "list_all plan_step tasks \<Longrightarrow>
   dispatch subs tasks results w = invoke_all (resolved_steps subs tasks) results w"
proof (induction tasks arbitrary: results w)
  case Nil
  show ?case by (simp add: resolved_steps_def)
next
  case (Cons task tasks)
  from Cons.prems obtain kv where task: "task = JObj kv"
    and h: "hashable (dict_get kv ''agent_name'')"
    by (auto simp: plan_step_def split: json.splits)
  have rest: "\<And>results w.
      dispatch subs tasks results w = invoke_all (resolved_steps subs tasks) results w"
    using Cons by simp
  show ?case
  proof (cases "dict_get kv ''agent_name''")
    case (JStr s)
    show ?thesis
    proof (cases "map_of subs s")
      case None
      with JStr task rest show ?thesis
        by (simp add: resolved_steps_def resolve_def get_field_def lookup_agent_def)
    next
      case (Some sub)
      with JStr task rest show ?thesis
        by (auto simp add: resolved_steps_def resolve_def get_field_def lookup_agent_def
            sub_agent_result_def split: option.splits sum.splits prod.splits)
    qed
  qed (use h task rest in
        \<open>simp_all add: resolved_steps_def resolve_def get_field_def lookup_agent_def\<close>)
qed

lemma resolved_steps_steps:
  "map snd (resolved_steps subs tasks) = filter (resolves subs) tasks"
  by (induction tasks) (auto simp: resolved_steps_def resolves_iff_resolve)

lemma resolved_steps_none:
  "list_all (\<lambda>task. \<not> resolves subs task) tasks \<Longrightarrow> resolved_steps subs tasks = []"
  by (induction tasks) (auto simp: resolved_steps_def resolves_iff_resolve)

lemma resolved_steps_sub:
  "(sub, step) \<in> set (resolved_steps subs tasks) \<Longrightarrow> sub \<in> snd ` set subs"
proof -
  assume "(sub, step) \<in> set (resolved_steps subs tasks)"
  then have "resolve subs step = Some sub"
    by (auto simp: resolved_steps_def List.map_filter_def)
  then obtain s where "map_of subs s = Some sub"
    by (cases "get_field step ''agent_name''") (simp_all add: resolve_def)
  then have "(s, sub) \<in> set subs" by (rule map_of_SomeD)
  then show ?thesis by force
qed

text \<open>What \<open>invoke_all\<close> returns has one SubAgentResult per step, in the steps' order.\<close>

lemma invoke_all_results:
  "invoke_all steps results w = Some (Inr results', w') \<Longrightarrow>
   \<exists>rs. length rs = length steps \<and>
        results' = results @ map2 sub_agent_result (map snd steps) rs"
proof (induction steps arbitrary: results w)
  case Nil
  then show ?case by simp
next
  case (Cons p steps)
  obtain sub step where p: "p = (sub, step)" by (cases p)
  from Cons.prems p obtain result w1 where
    rest: "invoke_all steps (results @ [sub_agent_result step result]) w1 = Some (Inr results', w')"
    by (auto split: option.splits sum.splits prod.splits)
  from Cons.IH[OF rest] obtain rs where
    "length rs = length steps"
    "results' = (results @ [sub_agent_result step result]) @ map2 sub_agent_result (map snd steps) rs"
    by blast
  then have "length (result # rs) = length (p # steps) \<and>
    results' = results @ map2 sub_agent_result (map snd (p # steps)) (result # rs)"
    using p by simp
  then show ?case by blast
qed

text \<open>It returns when every sub-agent it invokes does.\<close>

lemma invoke_all_returns:
  "\<forall>p \<in> set steps. always_returns (fst p) \<Longrightarrow>
   \<exists>results' w'. invoke_all steps results w = Some (Inr results', w')"
proof (induction steps arbitrary: results w)
  case Nil
  show ?case by simp
next
  case (Cons p steps)
  obtain sub step where p: "p = (sub, step)" by (cases p)
  with Cons.prems have "always_returns sub" by simp
  then obtain result w1 where "sub (get_field step ''sub_task'') w = Some (Inr result, w1)"
    unfolding always_returns_def by blast
  moreover from Cons.prems have "\<forall>p \<in> set steps. always_returns (fst p)" by simp
  from Cons.IH[OF this, of "results @ [sub_agent_result step result]" w1]
  obtain results' w' where
    "invoke_all steps (results @ [sub_agent_result step result]) w1 = Some (Inr results', w')"
    by blast
  ultimately show ?case using p by simp
qed



section \<open>The report after a failed synthesis\<close>

text \<open>
  Claim C3, as amended. When the dispatch phase of \<^verbatim>\<open>OrchestratorAgent.run\<close> has
  completed with the list \<open>results\<close>, the run returns what the synthesis call decides.
  When the call answers, it is the report with \<open>results\<close>, whole and in order, as
  \<^verbatim>\<open>analysis_results\<close>. When the call raises, or answers without a choice, and the
  handler's print of the error message succeeds, it is the dict
  \<^verbatim>\<open>{"error": "Orchestration error: ..."}\<close>, which has no \<^verbatim>\<open>analysis_results\<close>.
\<close>

theorem report_depends_on_synthesis:
  assumes "plan env (map fst (sub_agents orch)) prompt w = (Inr tasks, w1)"
    and "dispatch (sub_agents orch) tasks [] w1 = Some (Inr results, w2)"
  shows "(\<forall>synthesis w3 c cs.
        create env w2 (plain_request (synthesis_messages env results)) = (Inr synthesis, w3) \<and>
        choices synthesis = c # cs \<longrightarrow>
        orchestrator_run env orch prompt w =
          Some (Inr (JObj [(''data'',
                  JObj [(''output'', content_value (content (message c))),
                        (''analysis_results'', JArr results)])]), w3)) \<and>
     (\<forall>e w3.
        create env w2 (plain_request (synthesis_messages env results)) = (Inl e, w3) \<and>
        print env (''Orchestration error: '' @ exn_str e) = Inr () \<longrightarrow>
        orchestrator_run env orch prompt w =
          Some (Inr (JObj [(''error'', JStr (''Orchestration error: '' @ exn_str e))]), w3)) \<and>
     (\<forall>synthesis w3.
        create env w2 (plain_request (synthesis_messages env results)) = (Inr synthesis, w3) \<and>
        choices synthesis = [] \<and>
        print env ''Orchestration error: list index out of range'' = Inr () \<longrightarrow>
        orchestrator_run env orch prompt w =
          Some (Inr (JObj [(''error'', JStr ''Orchestration error: list index out of range'')]), w3))"
  using assms
  by (simp add: orchestrator_run_cases orchestrator_body_def synthesize_def first_item_def
      IndexError_def)

text \<open>
  Witness for C3: a one-step plan and the sub-agent's answer; then a synthesis that
  answers, and a synthesis that raises.
\<close>

theorem report_depends_on_synthesis_witness:
  "orchestrator_run (report_env one_step_plan 3) (orchestrator (report_env one_step_plan 3))
       (JStr ''Analyze recent news'') 0 =
     Some (Inr (JObj [(''data'',
       JObj [(''output'', JStr ''report''),
             (''analysis_results'',
                JArr [JObj [(''agent'', JStr ''news_searcher''),
                            (''task'', JStr ''find X''),
                            (''result'', JObj [(''data'', JObj [(''output'', JStr ''found'')])])]])])]), 3) \<and>
   orchestrator_run synthesis_down_env (orchestrator synthesis_down_env)
       (JStr ''Summarize the news'') 0 =
     Some (Inr (JObj [(''error'', JStr ''Orchestration error: Connection error.'')]), 3)"
proof -
  let ?up = "report_env one_step_plan 3"
  let ?down = "synthesis_down_env"
  let ?results = "[JObj [(''agent'', JStr ''news_searcher''),
                       (''task'', JStr ''find X''),
                       (''result'', JObj [(''data'', JObj [(''output'', JStr ''found'')])])]]"
  have p: "plan ?up (map fst (sub_agents (orchestrator ?up))) (JStr ''Analyze recent news'') 0 =
      (Inr [JObj [(''agent_name'', JStr ''news_searcher''), (''sub_task'', JStr ''find X'')]], 1)"
    by (simp add: plan_defs env_defs)
  have d: "dispatch (sub_agents (orchestrator ?up))
      [JObj [(''agent_name'', JStr ''news_searcher''), (''sub_task'', JStr ''find X'')]] [] 1 =
      Some (Inr ?results, 2)"
    by (simp add: orchestrator_defs swarm_defs plan_defs env_defs dict_get_def)
  have s: "create ?up 2 (plain_request (synthesis_messages ?up ?results)) =
      (Inr (final_reply ''report''), 3)"
    by (simp add: plan_defs env_defs)
  have c: "choices (final_reply ''report'') =
      \<lparr>finish_reason = ''stop'',
       message = \<lparr>content = Some ''report'', function_call = None\<rparr>\<rparr> # []"
    by (simp add: final_reply_def)
  have p': "plan ?down (map fst (sub_agents (orchestrator ?down))) (JStr ''Summarize the news'') 0 =
      (Inr [JObj [(''agent_name'', JStr ''news_searcher''), (''sub_task'', JStr ''find X'')]], 1)"
    by (simp add: plan_defs env_defs)
  have d': "dispatch (sub_agents (orchestrator ?down))
      [JObj [(''agent_name'', JStr ''news_searcher''), (''sub_task'', JStr ''find X'')]] [] 1 =
      Some (Inr ?results, 2)"
    by (simp add: orchestrator_defs swarm_defs plan_defs env_defs dict_get_def)
  have s': "create ?down 2 (plain_request (synthesis_messages ?down ?results)) =
      (Inl (Exn ''APIConnectionError'' ''Connection error.''), 3)"
    by (simp add: plan_defs env_defs)
  have q: "print ?down (''Orchestration error: ''
      @ exn_str (Exn ''APIConnectionError'' ''Connection error.'')) = Inr ()"
    by (simp add: plan_defs env_defs)
  from report_depends_on_synthesis[OF p d] s c report_depends_on_synthesis[OF p' d'] s' q
  show ?thesis
    by (simp add: content_value_def)
qed

text \<open>
  Counterexample to C3 as stated: the dispatch phase completes with one result, the
  synthesis call raises, and what the run returns has the \<^verbatim>\<open>error\<close> field only.
\<close>

theorem analysis_results_lost_counterexample:
  "dispatch (sub_agents (orchestrator synthesis_down_env))
       [JObj [(''agent_name'', JStr ''news_searcher''), (''sub_task'', JStr ''find X'')]] [] 1 =
     Some (Inr [JObj [(''agent'', JStr ''news_searcher''),
                      (''task'', JStr ''find X''),
                      (''result'', JObj [(''data'', JObj [(''output'', JStr ''found'')])])]], 2) \<and>
   orchestrator_run synthesis_down_env (orchestrator synthesis_down_env)
       (JStr ''Analyze recent news'') 0 =
     Some (Inr (JObj [(''error'', JStr ''Orchestration error: Connection error.'')]), 3)"
  by (simp add: orchestrator_defs swarm_defs plan_defs env_defs dict_get_def)


section \<open>A tool that is not registered\<close>

text \<open>
  Claim C4, as amended. When the model asks for a tool whose name is not in the agent's
  \<^verbatim>\<open>tool_implementations\<close>, with arguments that parse as a JSON object and a name that
  standard output can print, the run does not end and returns no error for it: the text
  \<^verbatim>\<open>Error: Function <name> not found\<close> is appended to the conversation as the result of
  the call, and the loop goes on with the model's next reply.
\<close>

theorem unknown_tool_goes_back_to_model:
  assumes "choices response = c # cs"
    and "finish_reason c = ''function_call''"
    and "function_call (message c) = Some fc"
    and "fc_name fc \<notin> set (map fst (tool_implementations env))"
    and "json_loads env (fc_arguments fc) = Inr (JObj kwargs)"
    and "print env (''Function: '' @ fc_name fc) = Inr ()"
  shows "tool_loop env ag msgs response w =
     (let msgs' = msgs @
            [JObj [(''role'', JStr ''assistant''),
                   (''content'', JNull),
                   (''function_call'',
                      JObj [(''name'', JStr (fc_name fc)),
                            (''arguments'', JStr (fc_arguments fc))])],
             JObj [(''role'', JStr ''function''),
                   (''name'', JStr (fc_name fc)),
                   (''content'', JStr (''Error: Function '' @ fc_name fc @ '' not found''))]]
      in case create env w (agent_request ag msgs') of
           (Inl e, w') \<Rightarrow> Some (Inl e, w')
         | (Inr response', w') \<Rightarrow> tool_loop env ag msgs' response' w')"
proof -
  from assms(4) have "map_of (tool_implementations env) (fc_name fc) = None"
    by (simp add: map_of_eq_None_iff)
  with assms(1,2,3,5,6) show ?thesis
    by (subst tool_loop.simps)
       (simp add: first_item_def tool_round_def call_tool_def py_str_def Let_def
          split: prod.splits sum.splits)
qed

text \<open>
  Witness for C4: the model asks for \<^verbatim>\<open>translate\<close>, is told that it is not found, and
  gives its final message on the next round.
\<close>

theorem unknown_tool_goes_back_to_model_witness:
  "tool_loop unknown_tool_env news_searcher (initial_messages news_searcher (JStr ''find X''))
       (call_reply ''translate'' ''{}'') 1 =
     Some (Inr (JObj [(''data'', JObj [(''output'', JStr ''done'')])]), 2)"
proof -
  have 1: "choices (call_reply ''translate'' ''{}'') =
      \<lparr>finish_reason = ''function_call'',
       message = \<lparr>content = None,
                  function_call = Some \<lparr>fc_name = ''translate'', fc_arguments = ''{}''\<rparr>\<rparr>\<rparr> # []"
    by (simp add: call_reply_def)
  have 4: "fc_name \<lparr>fc_name = ''translate'', fc_arguments = ''{}''\<rparr>
      \<notin> set (map fst (tool_implementations unknown_tool_env))"
    by (simp add: tool_implementations_def)
  have 5: "json_loads unknown_tool_env
      (fc_arguments \<lparr>fc_name = ''translate'', fc_arguments = ''{}''\<rparr>) = Inr (JObj [])"
    by (simp add: unknown_tool_env_def env_defs)
  have 6: "print unknown_tool_env
      (''Function: '' @ fc_name \<lparr>fc_name = ''translate'', fc_arguments = ''{}''\<rparr>) = Inr ()"
    by (simp add: unknown_tool_env_def env_defs)
  from unknown_tool_goes_back_to_model[OF 1 _ _ 4 5 6, of news_searcher
      "initial_messages news_searcher (JStr ''find X'')" 1]
  show ?thesis
    by (simp add: unknown_tool_env_def env_defs tool_loop.simps first_item_def content_value_def)
qed

text \<open>
  Counterexample to C4 as stated: in that run the agent returns the model's final
  message under \<^verbatim>\<open>data\<close>, not a dict with an \<^verbatim>\<open>error\<close> field.
\<close>

theorem unknown_tool_counterexample:
  "swarm_run unknown_tool_env news_searcher (JStr ''find X'') 0 =
     Some (Inr (JObj [(''data'', JObj [(''output'', JStr ''done'')])]), 2)"
  by (simp add: swarm_defs unknown_tool_env_def env_defs run_defs)


section \<open>The plan and its dispatch\<close>

text \<open>
  Claim C5. When the planning reply parses as a single JSON object, the plan is the list
  of that one object, and the run goes on to dispatch it.
\<close>

theorem single_object_plan_is_wrapped:
  assumes "create env w (plain_request (planning_messages (map fst (sub_agents orch)) prompt)) =
      (Inr planning_response, w1)"
    and "choices planning_response = c # cs"
    and "content (message c) = Some s"
    and "json_loads env s = Inr (JObj kv)"
  shows "plan env (map fst (sub_agents orch)) prompt w = (Inr [JObj kv], w1) \<and>
     orchestrator_body env orch prompt w =
       (case dispatch (sub_agents orch) [JObj kv] [] w1 of
          None \<Rightarrow> None
        | Some (Inl e, w2) \<Rightarrow> Some (Inl e, w2)
        | Some (Inr results, w2) \<Rightarrow> Some (synthesize env results w2))"
  using assms
  by (simp add: orchestrator_body_def plan_def first_item_def loads_content_def as_task_list_def)

text \<open>
  Witness for C5: the model's plan is one object, and the report has the result of its
  one step.
\<close>

theorem single_object_plan_is_wrapped_witness:
  "orchestrator_body (report_env object_plan 3) (orchestrator (report_env object_plan 3))
       (JStr ''Analyze recent news'') 0 =
     Some (Inr (JObj [(''data'',
       JObj [(''output'', JStr ''report''),
             (''analysis_results'',
                JArr [JObj [(''agent'', JStr ''news_searcher''),
                            (''task'', JStr ''find X''),
                            (''result'', JObj [(''data'', JObj [(''output'', JStr ''found'')])])]])])]), 3)"
proof -
  let ?env = "report_env object_plan 3"
  have 1: "create ?env 0 (plain_request (planning_messages (map fst (sub_agents (orchestrator ?env)))
      (JStr ''Analyze recent news''))) = (Inr (final_reply object_plan), 1)"
    by (simp add: report_env_def planning_env_def scripted_env_def)
  have 2: "choices (final_reply object_plan) =
      \<lparr>finish_reason = ''stop'',
       message = \<lparr>content = Some object_plan, function_call = None\<rparr>\<rparr> # []"
    by (simp add: final_reply_def)
  have 4: "json_loads ?env object_plan =
      Inr (JObj [(''agent_name'', JStr ''news_searcher''), (''sub_task'', JStr ''find X'')])"
    by (simp add: plan_defs env_defs)
  from single_object_plan_is_wrapped[OF 1 2 _ 4]
  show ?thesis
    by (simp add: orchestrator_defs swarm_defs plan_defs env_defs dict_get_def)
qed

text \<open>
  Claim C6. On every plan of the expected shape, the dispatch phase is the run of the
  steps that resolve: those whose \<^verbatim>\<open>agent_name\<close> is a key of the sub-agents, in plan
  order, each invoked with its \<^verbatim>\<open>sub_task\<close> and adding one SubAgentResult; the other
  steps change neither the results nor the world, and no step ends the phase. When
  every sub-agent returns, so does the phase.
\<close>

theorem dispatch_invokes_resolved_steps:
  assumes "list_all plan_step tasks"
  shows "dispatch subs tasks results w = invoke_all (resolved_steps subs tasks) results w \<and>
     map snd (resolved_steps subs tasks) = filter (resolves subs) tasks \<and>
     (list_all (\<lambda>sub. always_returns (snd sub)) subs \<longrightarrow>
        (\<exists>rs w'. length rs = length (filter (resolves subs) tasks) \<and>
           dispatch subs tasks results w =
             Some (Inr (results @ map2 sub_agent_result (filter (resolves subs) tasks) rs), w')))"
proof (intro conjI impI)
  show d: "dispatch subs tasks results w = invoke_all (resolved_steps subs tasks) results w"
    using assms by (rule dispatch_resolved)
  show "map snd (resolved_steps subs tasks) = filter (resolves subs) tasks"
    by (rule resolved_steps_steps)
  assume "list_all (\<lambda>sub. always_returns (snd sub)) subs"
  then have "\<forall>p \<in> set (resolved_steps subs tasks). always_returns (fst p)"
    by (auto simp: list_all_iff dest!: resolved_steps_sub)
  from invoke_all_returns[OF this] obtain results' w' where
    i: "invoke_all (resolved_steps subs tasks) results w = Some (Inr results', w')"
    by blast
  from invoke_all_results[OF i] obtain rs where
    "length rs = length (resolved_steps subs tasks)"
    "results' = results @ map2 sub_agent_result (map snd (resolved_steps subs tasks)) rs"
    by blast
  then have "length rs = length (filter (resolves subs) tasks) \<and>
      results' = results @ map2 sub_agent_result (filter (resolves subs) tasks) rs"
    by (metis length_map resolved_steps_steps)
  with d i show "\<exists>rs w'. length rs = length (filter (resolves subs) tasks) \<and>
      dispatch subs tasks results w =
        Some (Inr (results @ map2 sub_agent_result (filter (resolves subs) tasks) rs), w')"
    by auto
qed

text \<open>
  Witness for C6: of the five steps of \<open>mixed_plan\<close> the first and the last resolve, and
  the results are theirs, in that order, after two model calls.
\<close>

theorem dispatch_invokes_resolved_steps_witness:
  "list_all plan_step mixed_plan \<and>
   list_all (\<lambda>sub. always_returns (snd sub)) (sub_agents (orchestrator found_env)) \<and>
   filter (resolves (sub_agents (orchestrator found_env))) mixed_plan =
     [JObj [(''agent_name'', JStr ''content_analyzer''), (''sub_task'', JStr ''analyze'')],
      JObj [(''agent_name'', JStr ''news_searcher''), (''sub_task'', JStr ''find X'')]] \<and>
   dispatch (sub_agents (orchestrator found_env)) mixed_plan [] 0 =
     Some (Inr [JObj [(''agent'', JStr ''content_analyzer''),
                      (''task'', JStr ''analyze''),
                      (''result'', JObj [(''data'', JObj [(''output'', JStr ''found'')])])],
                JObj [(''agent'', JStr ''news_searcher''),
                      (''task'', JStr ''find X''),
                      (''result'', JObj [(''data'', JObj [(''output'', JStr ''found'')])])]], 2)"
proof -
  have h: "list_all plan_step mixed_plan"
    by (simp add: mixed_plan_def plan_step_def dict_get_def)
  have r: "list_all (\<lambda>sub. always_returns (snd sub)) (sub_agents (orchestrator found_env))"
    by (simp add: orchestrator_def OrchestratorAgent_def always_returns_def swarm_defs
        found_env_def env_defs first_item_def)
  have f: "filter (resolves (sub_agents (orchestrator found_env))) mixed_plan =
     [JObj [(''agent_name'', JStr ''content_analyzer''), (''sub_task'', JStr ''analyze'')],
      JObj [(''agent_name'', JStr ''news_searcher''), (''sub_task'', JStr ''find X'')]]"
    by (simp add: mixed_plan_def resolves_def get_field_def dict_get_def orchestrator_def
        OrchestratorAgent_def)
  have i: "invoke_all (resolved_steps (sub_agents (orchestrator found_env)) mixed_plan) [] 0 =
     Some (Inr [JObj [(''agent'', JStr ''content_analyzer''),
                      (''task'', JStr ''analyze''),
                      (''result'', JObj [(''data'', JObj [(''output'', JStr ''found'')])])],
                JObj [(''agent'', JStr ''news_searcher''),
                      (''task'', JStr ''find X''),
                      (''result'', JObj [(''data'', JObj [(''output'', JStr ''found'')])])]], 2)"
    by (simp add: mixed_plan_def resolved_steps_def resolve_def get_field_def dict_get_def
        orchestrator_def OrchestratorAgent_def sub_agent_result_def swarm_defs found_env_def
        env_defs first_item_def)
  from conjunct1[OF dispatch_invokes_resolved_steps[OF h,
        of "sub_agents (orchestrator found_env)" "[]" 0]] h r f i
  show ?thesis by simp
qed

text \<open>
  Claim C7. When the plan has no step, or only steps of the expected shape that do not
  resolve, the run goes on to the synthesis phase with the empty list of results, and
  the report that the synthesis gives has the empty list as \<^verbatim>\<open>analysis_results\<close>.
\<close>

theorem empty_plan_still_synthesizes:
  assumes "plan env (map fst (sub_agents orch)) prompt w = (Inr tasks, w1)"
    and "list_all (\<lambda>task. plan_step task \<and> \<not> resolves (sub_agents orch) task) tasks"
  shows "orchestrator_body env orch prompt w = Some (synthesize env [] w1) \<and>
     (\<forall>synthesis w2 c cs.
        create env w1 (plain_request (synthesis_messages env [])) = (Inr synthesis, w2) \<and>
        choices synthesis = c # cs \<longrightarrow>
        orchestrator_run env orch prompt w =
          Some (Inr (JObj [(''data'',
                  JObj [(''output'', content_value (content (message c))),
                        (''analysis_results'', JArr [])])]), w2))"
proof -
  from assms(2) have ps: "list_all plan_step tasks"
    and nr: "list_all (\<lambda>task. \<not> resolves (sub_agents orch) task) tasks"
    by (simp_all add: list_all_iff)
  have "dispatch (sub_agents orch) tasks [] w1 = Some (Inr [], w1)"
    by (simp add: dispatch_resolved[OF ps] resolved_steps_none[OF nr])
  with assms(1) have body: "orchestrator_body env orch prompt w = Some (synthesize env [] w1)"
    by (simp add: orchestrator_body_def)
  then show ?thesis
    by (auto simp: orchestrator_run_cases synthesize_def first_item_def)
qed

text \<open>
  Witness for C7, the scenario of the specification: the plan's one step names
  \<^verbatim>\<open>searcher\<close>, which is not registered.
\<close>

theorem empty_plan_still_synthesizes_witness:
  "orchestrator_run (report_env unregistered_plan 2) (orchestrator (report_env unregistered_plan 2))
       (JStr ''Analyze recent news'') 0 =
     Some (Inr (JObj [(''data'',
       JObj [(''output'', JStr ''report''), (''analysis_results'', JArr [])])]), 2)"
proof -
  let ?env = "report_env unregistered_plan 2"
  have p: "plan ?env (map fst (sub_agents (orchestrator ?env))) (JStr ''Analyze recent news'') 0 =
      (Inr [JObj [(''agent_name'', JStr ''searcher''), (''sub_task'', JStr ''find X'')]], 1)"
    by (simp add: plan_defs env_defs)
  have u: "list_all (\<lambda>task. plan_step task \<and> \<not> resolves (sub_agents (orchestrator ?env)) task)
      [JObj [(''agent_name'', JStr ''searcher''), (''sub_task'', JStr ''find X'')]]"
    by (simp add: plan_step_def resolves_def get_field_def dict_get_def orchestrator_def
        OrchestratorAgent_def)
  have s: "create ?env 1 (plain_request (synthesis_messages ?env [])) =
      (Inr (final_reply ''report''), 2)"
    by (simp add: report_env_def planning_env_def scripted_env_def)
  have c: "choices (final_reply ''report'') =
      \<lparr>finish_reason = ''stop'',
       message = \<lparr>content = Some ''report'', function_call = None\<rparr>\<rparr> # []"
    by (simp add: final_reply_def)
  from empty_plan_still_synthesizes[OF p u] s c show ?thesis
    by (simp add: content_value_def)
qed




text \<open>
  Claim C9. When the sub-agent of a step returns a dict with an \<^verbatim>\<open>error\<close> field, the
  dispatch phase appends the SubAgentResult that carries it to the results built so
  far and goes on with the rest of the plan, as after any other result.
\<close>

theorem sub_agent_error_is_collected:
  assumes "map_of kv ''agent_name'' = Some (JStr s)"
    and "map_of subs s = Some sub_agent_run"
    and "sub_agent_run (dict_get kv ''sub_task'') w = Some (Inr (JObj [(''error'', err)]), w')"
  shows "dispatch subs (JObj kv # tasks) results w =
     dispatch subs tasks
       (results @ [JObj [(''agent'', JStr s),
                         (''task'', dict_get kv ''sub_task''),
                         (''result'', JObj [(''error'', err)])]]) w'"
  using assms by (simp add: lookup_agent_def dict_get_def)

text \<open>
  Witness for C9: with the model endpoint down both agents return an error, and both
  errors are collected, in plan order.
\<close>

theorem sub_agent_error_is_collected_witness:
  "dispatch (sub_agents (orchestrator failing_env))
     [JObj [(''agent_name'', JStr ''news_searcher''), (''sub_task'', JStr ''find X'')],
      JObj [(''agent_name'', JStr ''content_analyzer''), (''sub_task'', JStr ''analyze'')]] [] 0 =
   Some (Inr [JObj [(''agent'', JStr ''news_searcher''),
                    (''task'', JStr ''find X''),
                    (''result'',
                       JObj [(''error'', JStr ''Error in agent execution: Connection error.'')])],
              JObj [(''agent'', JStr ''content_analyzer''),
                    (''task'', JStr ''analyze''),
                    (''result'',
                       JObj [(''error'', JStr ''Error in agent execution: Connection error.'')])]], 2)"
proof -
  have a: "map_of [(''agent_name'', JStr ''news_searcher''), (''sub_task'', JStr ''find X'')]
      ''agent_name'' = Some (JStr ''news_searcher'')"
    by simp
  have b: "map_of (sub_agents (orchestrator failing_env)) ''news_searcher'' =
      Some (swarm_run failing_env news_searcher)"
    by (simp add: orchestrator_def OrchestratorAgent_def)
  have c: "swarm_run failing_env news_searcher
      (dict_get [(''agent_name'', JStr ''news_searcher''), (''sub_task'', JStr ''find X'')]
         ''sub_task'') 0 =
      Some (Inr (JObj [(''error'', JStr ''Error in agent execution: Connection error.'')]), 1)"
    by (simp add: swarm_defs failing_env_def scripted_env_def dict_get_def)
  from sub_agent_error_is_collected[OF a b c,
      of "[JObj [(''agent_name'', JStr ''content_analyzer''), (''sub_task'', JStr ''analyze'')]]" "[]"]
  show ?thesis
    by (simp add: orchestrator_defs swarm_defs failing_env_def scripted_env_def dict_get_def)
qed

text \<open>
  Claim C10. A plan step that is a JSON object without the key \<^verbatim>\<open>agent_name\<close>, or with
  \<^verbatim>\<open>null\<close> for it, is skipped: the dispatch phase goes on with the rest of the plan,
  the results and the world unchanged. A step whose agent name is a string that is not
  registered is treated in the same way.
\<close>

theorem step_without_agent_name_is_skipped:
  assumes "map_of kv ''agent_name'' = None \<or> map_of kv ''agent_name'' = Some JNull"
  shows "dispatch subs (JObj kv # tasks) results w = dispatch subs tasks results w \<and>
     (\<forall>kv' s. map_of kv' ''agent_name'' = Some (JStr s) \<and> map_of subs s = None \<longrightarrow>
        dispatch subs (JObj kv' # tasks) results w = dispatch subs (JObj kv # tasks) results w)"
  using assms by (auto simp: lookup_agent_def dict_get_def)

text \<open>
  Witness for C10: a step without agent name and a step with the agent name \<^verbatim>\<open>null\<close>,
  before one that resolves.
\<close>

theorem step_without_agent_name_is_skipped_witness:
  "dispatch (sub_agents (orchestrator found_env))
     [JObj [(''sub_task'', JStr ''summarize'')],
      JObj [(''agent_name'', JNull), (''sub_task'', JStr ''find Z'')],
      JObj [(''agent_name'', JStr ''news_searcher''), (''sub_task'', JStr ''find X'')]] [] 0 =
   Some (Inr [JObj [(''agent'', JStr ''news_searcher''),
                    (''task'', JStr ''find X''),
                    (''result'', JObj [(''data'', JObj [(''output'', JStr ''found'')])])]], 1)"
proof -
  have a: "map_of [(''sub_task'', JStr ''summarize'')] ''agent_name'' = None \<or>
      map_of [(''sub_task'', JStr ''summarize'')] ''agent_name'' = Some JNull"
    by simp
  have b: "map_of [(''agent_name'', JNull), (''sub_task'', JStr ''find Z'')] ''agent_name'' = None \<or>
      map_of [(''agent_name'', JNull), (''sub_task'', JStr ''find Z'')] ''agent_name'' = Some JNull"
    by simp
  have 1: "dispatch (sub_agents (orchestrator found_env))
     [JObj [(''sub_task'', JStr ''summarize'')],
      JObj [(''agent_name'', JNull), (''sub_task'', JStr ''find Z'')],
      JObj [(''agent_name'', JStr ''news_searcher''), (''sub_task'', JStr ''find X'')]] [] 0 =
    dispatch (sub_agents (orchestrator found_env))
     [JObj [(''agent_name'', JNull), (''sub_task'', JStr ''find Z'')],
      JObj [(''agent_name'', JStr ''news_searcher''), (''sub_task'', JStr ''find X'')]] [] 0"
    by (rule conjunct1[OF step_without_agent_name_is_skipped[OF a]])
  have 2: "dispatch (sub_agents (orchestrator found_env))
     [JObj [(''agent_name'', JNull), (''sub_task'', JStr ''find Z'')],
      JObj [(''agent_name'', JStr ''news_searcher''), (''sub_task'', JStr ''find X'')]] [] 0 =
    dispatch (sub_agents (orchestrator found_env))
     [JObj [(''agent_name'', JStr ''news_searcher''), (''sub_task'', JStr ''find X'')]] [] 0"
    by (rule conjunct1[OF step_without_agent_name_is_skipped[OF b]])
  have 3: "dispatch (sub_agents (orchestrator found_env))
     [JObj [(''agent_name'', JStr ''news_searcher''), (''sub_task'', JStr ''find X'')]] [] 0 =
    Some (Inr [JObj [(''agent'', JStr ''news_searcher''),
                    (''task'', JStr ''find X''),
                    (''result'', JObj [(''data'', JObj [(''output'', JStr ''found'')])])]], 1)"
    by (simp add: orchestrator_defs swarm_defs found_env_def env_defs first_item_def dict_get_def)
  from 1 2 3 show ?thesis by simp
qed

end
